theory Spec2Isabelle
  imports Complex_Main
begin

section \<open>The report page of trashtrack (app/report/page.tsx)\<close>

text \<open>
  The page is one React component. Its state cells (\<open>useState\<close>) become one record, each
  event handler becomes a function from the state in which it is invoked to the state it
  leaves behind, together with the list of effects it performs on its collaborators
  (toasts, console, router, the user and report stores, the generative model). The
  collaborators are parameters of the handlers: what they return or throw is an input.

  A handler is modelled as running to completion from the state it was invoked in: the
  values its closure captured (\<open>newReport\<close>, \<open>reports\<close>, \<open>verificationResult\<close>, ...) are the
  ones of that state.
\<close>

subsection \<open>JavaScript values and errors\<close>

datatype error = SyntaxError | TypeError | RangeError | Rejected

text \<open>
  A number is an IEEE double. The page only tests numbers for truthiness and stores them,
  so a finite double is represented by the rational it was read from; what is modelled of
  the conversion is where it leaves the finite non-zero range (\<open>to_double\<close> below).
\<close>

datatype jsnum = Num rat | PosInfinity | NegInfinity

datatype jsvalue =
    Undefined
  | Null
  | Bool bool
  | Number jsnum
  | String string
  | Array "jsvalue list"
  | Object "(string \<times> jsvalue) list"

text \<open>Truthiness (ToBoolean): what \<open>if (x)\<close>, \<open>x && y\<close> and \<open>x || y\<close> test.\<close>

fun truthy :: "jsvalue \<Rightarrow> bool" where
  "truthy Undefined = False"
| "truthy Null = False"
| "truthy (Bool b) = b"
| "truthy (Number (Num r)) = (r \<noteq> 0)"
| "truthy (Number PosInfinity) = True"
| "truthy (Number NegInfinity) = True"
| "truthy (String s) = (s \<noteq> [])"
| "truthy (Array xs) = True"
| "truthy (Object kvs) = True"

text \<open>
  Property read \<open>v.k\<close> for a key \<open>k\<close> that no prototype defines (the page reads
  \<open>wasteType\<close>, \<open>quantity\<close> and \<open>confidence\<close>): on \<open>null\<close> and \<open>undefined\<close> it throws a
  TypeError, on an object it is the own property (the last one of that name, as
  \<open>JSON.parse\<close> lets a later duplicate overwrite an earlier one), and on everything else
  it is \<open>undefined\<close>.
\<close>

fun get_prop :: "jsvalue \<Rightarrow> string \<Rightarrow> error + jsvalue" where
  "get_prop Undefined k = Inl TypeError"
| "get_prop Null k = Inl TypeError"
| "get_prop (Object kvs) k =
     (case map_of (rev kvs) k of None \<Rightarrow> Inr Undefined | Some v \<Rightarrow> Inr v)"
| "get_prop v k = Inr Undefined"

subsection \<open>String.prototype.split with a one-character separator\<close>

text \<open>
  \<open>s.split(sep)\<close> never returns an empty array, so the result is its element 0 and the
  list of the elements after it; element 1 is \<open>undefined\<close> when there is no separator.
\<close>

fun split_on :: "char \<Rightarrow> string \<Rightarrow> string \<times> string list" where
  "split_on sep [] = ([], [])"
| "split_on sep (c # cs) =
     (let (p, ps) = split_on sep cs
      in if c = sep then ([], p # ps) else (c # p, ps))"

definition split_0 :: "char \<Rightarrow> string \<Rightarrow> string" where
  "split_0 sep s = fst (split_on sep s)"

definition split_1 :: "char \<Rightarrow> string \<Rightarrow> string option" where
  "split_1 sep s = (case snd (split_on sep s) of [] \<Rightarrow> None | p # _ \<Rightarrow> Some p)"

subsection \<open>JSON.parse\<close>

text \<open>
  The text is a string of bytes (UTF-8). The grammar is the one of ECMA-404: white space
  is space, tab, line feed and carriage return; a string may not hold a raw control
  character; a number is \<open>-? (0 | [1-9][0-9]*) (. [0-9]+)? ([eE] [+-]? [0-9]+)?\<close>;
  nothing but white space may follow the value. A \<open>\uXXXX\<close> escape is stored as the UTF-8
  bytes of that code unit.
\<close>

datatype token =
    TLBrace | TRBrace | TLBrack | TRBrack | TColon | TComma
  | TTrue | TFalse | TNull
  | TStr string
  | TNum jsnum

definition is_digit :: "char \<Rightarrow> bool" where
  "is_digit c = (48 \<le> (of_char c :: nat) \<and> (of_char c :: nat) \<le> 57)"

definition digit_val :: "char \<Rightarrow> nat" where
  "digit_val c = of_char c - 48"

definition digits_val :: "string \<Rightarrow> nat" where
  "digits_val ds = foldl (\<lambda>a c. 10 * a + digit_val c) 0 ds"

definition hex_val :: "char \<Rightarrow> nat option" where
  "hex_val c =
     (let n = (of_char c :: nat)
      in if 48 \<le> n \<and> n \<le> 57 then Some (n - 48)
         else if 65 \<le> n \<and> n \<le> 70 then Some (n - 55)
         else if 97 \<le> n \<and> n \<le> 102 then Some (n - 87)
         else None)"

definition hex4 :: "char \<Rightarrow> char \<Rightarrow> char \<Rightarrow> char \<Rightarrow> nat option" where
  "hex4 a b c d =
     (case (hex_val a, hex_val b, hex_val c, hex_val d) of
        (Some w, Some x, Some y, Some z) \<Rightarrow> Some (((w * 16 + x) * 16 + y) * 16 + z)
      | _ \<Rightarrow> None)"

definition utf8 :: "nat \<Rightarrow> string" where
  "utf8 n =
     (if n < 128 then [char_of n]
      else if n < 2048 then [char_of (192 + n div 64), char_of (128 + n mod 64)]
      else [char_of (224 + n div 4096), char_of (128 + (n div 64) mod 64),
            char_of (128 + n mod 64)])"

definition escape :: "char \<Rightarrow> char option" where
  "escape e =
     (if e = CHR 0x22 then Some (CHR 0x22)
      else if e = CHR 0x5C then Some (CHR 0x5C)
      else if e = CHR ''/'' then Some (CHR ''/'')
      else if e = CHR ''b'' then Some (CHR 0x08)
      else if e = CHR ''f'' then Some (CHR 0x0C)
      else if e = CHR ''n'' then Some (CHR 0x0A)
      else if e = CHR ''r'' then Some (CHR 0x0D)
      else if e = CHR ''t'' then Some (CHR 0x09)
      else None)"

text \<open>
  The body of a string literal, after its opening quote: the decoded string (collected in
  reverse in \<open>acc\<close>) and the text after the closing quote.
\<close>

fun lex_string :: "string \<Rightarrow> string \<Rightarrow> (string \<times> string) option" where
  "lex_string acc [] = None"
| "lex_string acc (c # cs) =
     (if c = CHR 0x22 then Some (rev acc, cs)
      else if c = CHR 0x5C then
        (case cs of
           [] \<Rightarrow> None
         | e # es \<Rightarrow>
            (if e = CHR ''u'' then
               (case es of
                  h1 # h2 # h3 # h4 # r \<Rightarrow>
                    (case hex4 h1 h2 h3 h4 of
                       None \<Rightarrow> None
                     | Some n \<Rightarrow> lex_string (rev (utf8 n) @ acc) r)
                | _ \<Rightarrow> None)
             else
               (case escape e of
                  None \<Rightarrow> None
                | Some x \<Rightarrow> lex_string (x # acc) es)))
      else if (of_char c :: nat) < 32 then None
      else lex_string (c # acc) cs)"

text \<open>
  Decimal literal to double, as far as the page can observe it: a value of magnitude at
  most \<open>2^-1075\<close> rounds to zero, one of magnitude at least \<open>2^1024 - 2^970\<close> rounds to an
  infinity (round to nearest, ties to even).
\<close>

definition to_double :: "rat \<Rightarrow> jsnum" where
  "to_double r =
     (if \<bar>r\<bar> \<le> 1 / 2 ^ 1075 then Num 0
      else if 2 ^ 1024 - 2 ^ 970 \<le> \<bar>r\<bar> then (if r < 0 then NegInfinity else PosInfinity)
      else Num r)"

definition parse_exp :: "string \<Rightarrow> int option" where
  "parse_exp s =
     (let (neg, ds) =
            (case s of
               [] \<Rightarrow> (False, s)
             | c # r \<Rightarrow> if c = CHR ''-'' then (True, r)
                        else if c = CHR ''+'' then (False, r) else (False, s))
      in if ds = [] \<or> \<not> list_all is_digit ds then None
         else Some (if neg then - int (digits_val ds) else int (digits_val ds)))"

text \<open>The text after the integer part: the fraction digits and the exponent.\<close>

definition parse_frac_exp :: "string \<Rightarrow> (string \<times> int) option" where
  "parse_frac_exp s =
     (case s of
        [] \<Rightarrow> Some ([], 0)
      | c # r \<Rightarrow>
         if c = CHR ''.'' then
           (let fd = takeWhile is_digit r; r' = dropWhile is_digit r
            in if fd = [] then None
               else (case r' of
                       [] \<Rightarrow> Some (fd, 0)
                     | e # r'' \<Rightarrow>
                        if e = CHR ''e'' \<or> e = CHR ''E''
                        then map_option (Pair fd) (parse_exp r'') else None))
         else if c = CHR ''e'' \<or> c = CHR ''E'' then map_option (Pair []) (parse_exp r)
         else None)"

definition decimal :: "bool \<Rightarrow> nat \<Rightarrow> int \<Rightarrow> rat" where
  "decimal neg m e =
     (let v = (if 0 \<le> e then of_nat m * 10 ^ nat e else of_nat m / 10 ^ nat (- e))
      in if neg then - v else v)"

definition number_literal :: "string \<Rightarrow> jsnum option" where
  "number_literal s =
     (let (neg, s1) =
            (case s of
               [] \<Rightarrow> (False, s)
             | c # r \<Rightarrow> if c = CHR ''-'' then (True, r) else (False, s))
      in case s1 of
           [] \<Rightarrow> None
         | d # r \<Rightarrow>
            if \<not> is_digit d then None
            else
              (let (ip, rest) =
                     (if d = CHR ''0'' then ([d], r)
                      else (d # takeWhile is_digit r, dropWhile is_digit r))
               in case parse_frac_exp rest of
                    None \<Rightarrow> None
                  | Some (fd, ex) \<Rightarrow>
                      Some (to_double
                              (decimal neg (digits_val (ip @ fd)) (ex - int (length fd))))))"

text \<open>
  A number token is the longest run of characters that can occur in a number; the run
  must be one number literal. (A number directly followed by another such character is a
  syntax error in any case.)
\<close>

definition is_numchar :: "char \<Rightarrow> bool" where
  "is_numchar c =
     (is_digit c \<or> c = CHR ''-'' \<or> c = CHR ''+'' \<or> c = CHR ''.'' \<or> c = CHR ''e'' \<or> c = CHR ''E'')"

definition is_space :: "char \<Rightarrow> bool" where
  "is_space c = (c = CHR '' '' \<or> c = CHR 0x09 \<or> c = CHR 0x0A \<or> c = CHR 0x0D)"

function tokens :: "string \<Rightarrow> token list option" where
  "tokens [] = Some []"
| "tokens (c # cs) =
     (if is_space c then tokens cs
      else if c = CHR ''{'' then map_option (Cons TLBrace) (tokens cs)
      else if c = CHR ''}'' then map_option (Cons TRBrace) (tokens cs)
      else if c = CHR ''['' then map_option (Cons TLBrack) (tokens cs)
      else if c = CHR '']'' then map_option (Cons TRBrack) (tokens cs)
      else if c = CHR '':'' then map_option (Cons TColon) (tokens cs)
      else if c = CHR '','' then map_option (Cons TComma) (tokens cs)
      else if c = CHR 0x22 then
        (case lex_string [] cs of
           None \<Rightarrow> None
         | Some (s, r) \<Rightarrow> map_option (Cons (TStr s)) (tokens r))
      else if is_digit c \<or> c = CHR ''-'' then
        (case number_literal (c # takeWhile is_numchar cs) of
           None \<Rightarrow> None
         | Some n \<Rightarrow> map_option (Cons (TNum n)) (tokens (dropWhile is_numchar cs)))
      else if take 4 (c # cs) = ''true'' then map_option (Cons TTrue) (tokens (drop 3 cs))
      else if take 5 (c # cs) = ''false'' then map_option (Cons TFalse) (tokens (drop 4 cs))
      else if take 4 (c # cs) = ''null'' then map_option (Cons TNull) (tokens (drop 3 cs))
      else None)"
  by pat_completeness auto

termination
proof (relation "measure length", goal_cases)
  case 1
  show ?case by simp
next
  case (9 c cs x2 x y)
  have shorter: "lex_string acc s = Some (v, r) \<Longrightarrow> length r < length s" for acc s v r
  proof (induction acc s arbitrary: v r rule: lex_string.induct)
    case (1 acc)
    then show ?case by simp
  next
    case (2 acc c cs)
    then show ?case
      by (fastforce split: if_splits list.splits option.splits)
  qed
  from 9 have "lex_string [] cs = Some (x, y)" by simp
  then have "length y < length cs" by (rule shorter)
  then show ?case by simp
next
  case (10 c cs x2)
  have "length (dropWhile is_numchar cs) \<le> length cs" by (rule length_dropWhile_le)
  then show ?case by simp
qed simp_all

text \<open>
  The parser is a pushdown automaton over the tokens. A frame of the stack is an array
  or an object under construction, with the members read so far (in reverse); the frame
  of an object also holds the key whose value is being read.
\<close>

datatype frame =
    FArr "jsvalue list"
  | FObj "(string \<times> jsvalue) list" string

datatype config =
    WantValue "frame list"
  | ArrOpen "frame list"
  | ArrNext "jsvalue list" "frame list"
  | ObjOpen "frame list"
  | ObjKey "(string \<times> jsvalue) list" "frame list"
  | ObjColon "(string \<times> jsvalue) list" string "frame list"
  | ObjNext "(string \<times> jsvalue) list" "frame list"
  | Done jsvalue

text \<open>A complete value goes into the innermost array or object, or is the result.\<close>

fun feed :: "jsvalue \<Rightarrow> frame list \<Rightarrow> config" where
  "feed v [] = Done v"
| "feed v (FArr acc # st) = ArrNext (v # acc) st"
| "feed v (FObj acc k # st) = ObjNext ((k, v) # acc) st"

fun value_start :: "frame list \<Rightarrow> token \<Rightarrow> config option" where
  "value_start st TLBrack = Some (ArrOpen st)"
| "value_start st TLBrace = Some (ObjOpen st)"
| "value_start st TTrue = Some (feed (Bool True) st)"
| "value_start st TFalse = Some (feed (Bool False) st)"
| "value_start st TNull = Some (feed Null st)"
| "value_start st (TStr s) = Some (feed (String s) st)"
| "value_start st (TNum n) = Some (feed (Number n) st)"
| "value_start st t = None"

fun step :: "config \<Rightarrow> token \<Rightarrow> config option" where
  "step (WantValue st) t = value_start st t"
| "step (ArrOpen st) TRBrack = Some (feed (Array []) st)"
| "step (ArrOpen st) t = value_start (FArr [] # st) t"
| "step (ArrNext acc st) TComma = Some (WantValue (FArr acc # st))"
| "step (ArrNext acc st) TRBrack = Some (feed (Array (rev acc)) st)"
| "step (ObjOpen st) TRBrace = Some (feed (Object []) st)"
| "step (ObjOpen st) (TStr k) = Some (ObjColon [] k st)"
| "step (ObjKey acc st) (TStr k) = Some (ObjColon acc k st)"
| "step (ObjColon acc k st) TColon = Some (WantValue (FObj acc k # st))"
| "step (ObjNext acc st) TComma = Some (ObjKey acc st)"
| "step (ObjNext acc st) TRBrace = Some (feed (Object (rev acc)) st)"
| "step c t = None"

fun run :: "config \<Rightarrow> token list \<Rightarrow> jsvalue option" where
  "run (Done v) [] = Some v"
| "run c [] = None"
| "run c (t # ts) = (case step c t of None \<Rightarrow> None | Some c' \<Rightarrow> run c' ts)"

definition JSON_parse :: "string \<Rightarrow> error + jsvalue" where
  "JSON_parse text =
     (case tokens text of
        None \<Rightarrow> Inl SyntaxError
      | Some ts \<Rightarrow>
         (case run (WantValue []) ts of
            None \<Rightarrow> Inl SyntaxError
          | Some v \<Rightarrow> Inr v))"

subsection \<open>Date.prototype.toISOString\<close>

text \<open>
  A \<open>Date\<close> is represented by the UTC fields of its time value, which is all that
  \<open>toISOString\<close> reads; on an invalid date \<open>toISOString\<close> throws a RangeError. The
  format is \<open>YYYY-MM-DDTHH:mm:ss.sssZ\<close>, with a sign and six digits for a year outside
  0..9999.
\<close>

record utc_fields =
  year :: int
  month :: nat
  day :: nat
  hours :: nat
  minutes :: nat
  seconds :: nat
  milliseconds :: nat

datatype jsdate = InvalidDate | Date utc_fields

definition digit_char :: "nat \<Rightarrow> char" where
  "digit_char n = ''0123456789'' ! (n mod 10)"

text \<open>The last \<open>w\<close> decimal digits of \<open>n\<close>, with leading zeros.\<close>

primrec pad :: "nat \<Rightarrow> nat \<Rightarrow> string" where
  "pad 0 n = []"
| "pad (Suc w) n = pad w (n div 10) @ [digit_char n]"

definition iso_year :: "int \<Rightarrow> string" where
  "iso_year y =
     (if 0 \<le> y \<and> y \<le> 9999 then pad 4 (nat y)
      else (if y < 0 then CHR ''-'' else CHR ''+'') # pad 6 (nat \<bar>y\<bar>))"

definition iso_date :: "utc_fields \<Rightarrow> string" where
  "iso_date d = iso_year (year d) @ ''-'' @ pad 2 (month d) @ ''-'' @ pad 2 (day d)"

definition iso_time :: "utc_fields \<Rightarrow> string" where
  "iso_time d =
     pad 2 (hours d) @ '':'' @ pad 2 (minutes d) @ '':'' @ pad 2 (seconds d) @ ''.''
       @ pad 3 (milliseconds d) @ ''Z''"

fun toISOString :: "jsdate \<Rightarrow> error + string" where
  "toISOString InvalidDate = Inl RangeError"
| "toISOString (Date d) = Inr (iso_date d @ ''T'' @ iso_time d)"

subsection \<open>The state of the page\<close>

record user =
  user_id :: int
  email :: string
  name :: string

text \<open>
  A report as the store returns it has a \<open>Date\<close> in \<open>createdAt\<close>; in the list the page
  shows, \<open>createdAt\<close> is a string.
\<close>

record 'd report =
  report_id :: int
  report_location :: string
  wasteType :: string
  report_amount :: string
  createdAt :: 'd

text \<open>
  The draft \<open>newReport\<close>. TypeScript declares three strings, but \<open>type\<close> and \<open>amount\<close>
  receive whatever \<open>JSON.parse\<close> returned for \<open>wasteType\<close> and \<open>quantity\<close>.
\<close>

record draft =
  location :: string
  type :: jsvalue
  amount :: jsvalue

record jsfile =
  file_name :: string
  file_type :: string

datatype status = Idle | Verifying | Success | Failure

record page_state =
  user :: "user option"
  reports :: "string report list"
  newReport :: draft
  "file" :: "jsfile option"
  preview :: "string option"
  verificationStatus :: status
  verificationResult :: "jsvalue option"
  isSubmitting :: bool

definition empty_draft :: draft where
  "empty_draft = \<lparr>location = '''', type = String '''', amount = String ''''\<rparr>"

definition initial_state :: page_state where
  "initial_state =
     \<lparr>user = None, reports = [], newReport = empty_draft, file = None, preview = None,
      verificationStatus = Idle, verificationResult = None, isSubmitting = False\<rparr>"

subsection \<open>Effects\<close>

text \<open>
  The request to the model: the part of the data URL after its first comma
  (\<open>undefined\<close> when there is none) and the file's MIME type. The prompt is a constant.
\<close>

record genai_request =
  inline_data :: "string option"
  mimeType :: string

text \<open>
  \<open>CallCreateReport\<close> has the six arguments of the call; the last one stands for
  \<open>JSON.stringify\<close> of the value it holds.
\<close>

datatype event =
    PreventDefault
  | ToastError string
  | ToastSuccess string
  | ConsoleError string
  | RouterPush string
  | LocalStorageGetItem string
  | ReadAsDataURL jsfile
  | GenerateContent genai_request
  | CallGetUserByEmail string
  | CallCreateUser string string
  | CallGetRecentReports
  | CallCreateReport int string jsvalue jsvalue "string option" "jsvalue option"

fun is_store_call :: "event \<Rightarrow> bool" where
  "is_store_call (CallGetUserByEmail e) = True"
| "is_store_call (CallCreateUser e n) = True"
| "is_store_call CallGetRecentReports = True"
| "is_store_call (CallCreateReport u l t a p v) = True"
| "is_store_call ev = False"

fun is_createReport :: "event \<Rightarrow> bool" where
  "is_createReport (CallCreateReport u l t a p v) = True"
| "is_createReport ev = False"

subsection \<open>handleFileChange\<close>

text \<open>
  \<open>files\<close> is \<open>e.target.files\<close>: \<open>null\<close> or a list of files. The preview is set later,
  by the reader's \<open>onload\<close> callback.
\<close>

definition handleFileChange :: "jsfile list option \<Rightarrow> page_state \<Rightarrow> page_state \<times> event list" where
  "handleFileChange files s =
     (case files of
        None \<Rightarrow> (s, [])
      | Some [] \<Rightarrow> (s, [])
      | Some (selectedFile # _) \<Rightarrow> (s\<lparr>file := Some selectedFile\<rparr>, [ReadAsDataURL selectedFile]))"

definition reader_onload :: "string option \<Rightarrow> page_state \<Rightarrow> page_state" where
  "reader_onload result s = s\<lparr>preview := result\<rparr>"

subsection \<open>handleVerify\<close>

record verify_env =
  readFileAsBase64 :: "jsfile \<Rightarrow> error + string"
  generateContent :: "genai_request \<Rightarrow> error + string"

text \<open>
  The outer \<open>try\<close> block up to \<open>const text = response.text()\<close>: the file is read, the
  request is sent, and the answer's text comes back, unless one of them throws.
\<close>

definition request_text :: "verify_env \<Rightarrow> jsfile \<Rightarrow> (error + string) \<times> event list" where
  "request_text env f =
     (case readFileAsBase64 env f of
        Inl e \<Rightarrow> (Inl e, [ReadAsDataURL f])
      | Inr base64Data \<Rightarrow>
          (let req = \<lparr>inline_data = split_1 CHR '','' base64Data, mimeType = file_type f\<rparr>
           in (generateContent env req, [ReadAsDataURL f, GenerateContent req])))"

text \<open>
  The condition \<open>parsedResult.wasteType && parsedResult.quantity && parsedResult.confidence\<close>,
  read left to right: \<open>Inl\<close> when a property read throws, \<open>Inr None\<close> when a field is
  falsy, \<open>Inr (Some (wasteType, quantity))\<close> when all three are truthy.
\<close>

definition check_fields :: "jsvalue \<Rightarrow> error + (jsvalue \<times> jsvalue) option" where
  "check_fields parsedResult =
     (case get_prop parsedResult ''wasteType'' of
        Inl e \<Rightarrow> Inl e
      | Inr w \<Rightarrow>
         if \<not> truthy w then Inr None
         else (case get_prop parsedResult ''quantity'' of
                 Inl e \<Rightarrow> Inl e
               | Inr q \<Rightarrow>
                  if \<not> truthy q then Inr None
                  else (case get_prop parsedResult ''confidence'' of
                          Inl e \<Rightarrow> Inl e
                        | Inr c \<Rightarrow> if \<not> truthy c then Inr None else Inr (Some (w, q)))))"

text \<open>The inner \<open>try\<close> block, run in state \<open>s1\<close> by the handler invoked in state \<open>s\<close>.\<close>

definition interpret_text :: "string \<Rightarrow> page_state \<Rightarrow> page_state \<Rightarrow> page_state \<times> event list" where
  "interpret_text text s s1 =
     (case JSON_parse text of
        Inl e \<Rightarrow>
          (s1\<lparr>verificationStatus := Failure\<rparr>, [ConsoleError ''Failed to parse JSON response:''])
      | Inr parsedResult \<Rightarrow>
         (case check_fields parsedResult of
            Inl e \<Rightarrow>
              (s1\<lparr>verificationStatus := Failure\<rparr>,
               [ConsoleError ''Failed to parse JSON response:''])
          | Inr None \<Rightarrow>
              (s1\<lparr>verificationStatus := Failure\<rparr>,
               [ConsoleError ''Invalid verification result:''])
          | Inr (Some (w, q)) \<Rightarrow>
              (s1\<lparr>verificationResult := Some parsedResult,
                  verificationStatus := Success,
                  newReport := (newReport s)\<lparr>type := w, amount := q\<rparr>\<rparr>, [])))"

text \<open>The state right after the synchronous start of an attempt.\<close>

definition verify_started :: "page_state \<Rightarrow> page_state" where
  "verify_started s = s\<lparr>verificationStatus := Verifying\<rparr>"

definition handleVerify :: "verify_env \<Rightarrow> page_state \<Rightarrow> page_state \<times> event list" where
  "handleVerify env s =
     (case file s of
        None \<Rightarrow> (s, [])
      | Some f \<Rightarrow>
         (let s1 = verify_started s
          in case request_text env f of
               (Inl e, evs) \<Rightarrow>
                 (s1\<lparr>verificationStatus := Failure\<rparr>,
                  evs @ [ConsoleError ''Error verifying waste:''])
             | (Inr text, evs) \<Rightarrow>
                 (let (s2, evs2) = interpret_text text s s1 in (s2, evs @ evs2))))"

subsection \<open>handleSubmit\<close>

definition formatReport :: "jsdate report \<Rightarrow> error + string report" where
  "formatReport r =
     (case toISOString (createdAt r) of
        Inl e \<Rightarrow> Inl e
      | Inr isoString \<Rightarrow>
          Inr \<lparr>report_id = report_id r, report_location = report_location r,
               wasteType = wasteType r, report_amount = report_amount r,
               createdAt = split_0 CHR ''T'' isoString\<rparr>)"

text \<open>\<open>x || undefined\<close> on a string or \<open>null\<close>, and \<open>x ? x : undefined\<close> on a value or \<open>null\<close>.\<close>

definition nonempty :: "string option \<Rightarrow> string option" where
  "nonempty p = (case p of None \<Rightarrow> None | Some x \<Rightarrow> if x = [] then None else Some x)"

definition if_truthy :: "jsvalue option \<Rightarrow> jsvalue option" where
  "if_truthy r = (case r of None \<Rightarrow> None | Some v \<Rightarrow> if truthy v then Some v else None)"

type_synonym createReport_fn =
  "int \<Rightarrow> string \<Rightarrow> jsvalue \<Rightarrow> jsvalue \<Rightarrow> string option \<Rightarrow> jsvalue option \<Rightarrow> error + jsdate report"

definition not_ready :: string where
  "not_ready = ''Please verify the waste before submitting or log in.''"

definition submit_failed :: string where
  "submit_failed = ''Failed to submit report. Please try again.''"

definition submit_ok :: string where
  "submit_ok = ''Report submitted successfully! You've earned points for reporting waste.''"

text \<open>The handler after its guard, for the resolved user \<open>u\<close>.\<close>

definition submit :: "createReport_fn \<Rightarrow> user \<Rightarrow> page_state \<Rightarrow> page_state \<times> event list" where
  "submit createReport u s =
     (let d = newReport s;
          img = nonempty (preview s);
          ver = if_truthy (verificationResult s);
          call = CallCreateReport (user_id u) (location d) (type d) (amount d) img ver;
          s1 = s\<lparr>isSubmitting := True\<rparr>
      in case (case createReport (user_id u) (location d) (type d) (amount d) img ver of
                 Inl e \<Rightarrow> Inl e
               | Inr report \<Rightarrow> formatReport report) of
           Inr formattedReport \<Rightarrow>
             (s1\<lparr>reports := formattedReport # reports s,
                 newReport := \<lparr>location = '''', type = String '''', amount = String ''''\<rparr>,
                 file := None,
                 preview := None,
                 verificationStatus := Idle,
                 verificationResult := None,
                 isSubmitting := False\<rparr>,
              [PreventDefault, call, ToastSuccess submit_ok])
         | Inl e \<Rightarrow>
             (s1\<lparr>isSubmitting := False\<rparr>,
              [PreventDefault, call, ConsoleError ''Error submitting report:'',
               ToastError submit_failed]))"

definition handleSubmit :: "createReport_fn \<Rightarrow> page_state \<Rightarrow> page_state \<times> event list" where
  "handleSubmit createReport s =
     (if verificationStatus s \<noteq> Success then (s, [PreventDefault, ToastError not_ready])
      else case user s of
             None \<Rightarrow> (s, [PreventDefault, ToastError not_ready])
           | Some u \<Rightarrow> submit createReport u s)"

subsection \<open>checkUser, the effect run on mount\<close>

record bootstrap_env =
  localStorage_getItem :: "string \<Rightarrow> string option"
  getUserByEmail :: "string \<Rightarrow> error + user option"
  createUser :: "string \<Rightarrow> string \<Rightarrow> error + user option"
  getRecentReports :: "error + jsdate report list"

fun format_all :: "jsdate report list \<Rightarrow> error + string report list" where
  "format_all [] = Inr []"
| "format_all (r # rs) =
     (case formatReport r of
        Inl e \<Rightarrow> Inl e
      | Inr f \<Rightarrow> (case format_all rs of Inl e \<Rightarrow> Inl e | Inr fs \<Rightarrow> Inr (f # fs)))"

text \<open>
  After \<open>setUser\<close>: the recent reports are fetched and formatted. If the fetch or the
  formatting throws, the promise of \<open>checkUser\<close> rejects and \<open>setReports\<close> is not reached.
\<close>

definition load_reports :: "bootstrap_env \<Rightarrow> page_state \<Rightarrow> page_state" where
  "load_reports env s =
     (case getRecentReports env of
        Inl e \<Rightarrow> s
      | Inr recentReports \<Rightarrow>
         (case format_all recentReports of
            Inl e \<Rightarrow> s
          | Inr formattedReports \<Rightarrow> s\<lparr>reports := formattedReports\<rparr>))"

definition checkUser :: "bootstrap_env \<Rightarrow> page_state \<Rightarrow> page_state \<times> event list" where
  "checkUser env s =
     (case nonempty (localStorage_getItem env ''userEmail'') of
        None \<Rightarrow> (s, [LocalStorageGetItem ''userEmail'', RouterPush ''/login''])
      | Some e \<Rightarrow>
         (case getUserByEmail env e of
            Inl err \<Rightarrow> (s, [LocalStorageGetItem ''userEmail'', CallGetUserByEmail e])
          | Inr (Some u) \<Rightarrow>
              (load_reports env (s\<lparr>user := Some u\<rparr>),
               [LocalStorageGetItem ''userEmail'', CallGetUserByEmail e, CallGetRecentReports])
          | Inr None \<Rightarrow>
             (case createUser env e ''Anonymous User'' of
                Inl err \<Rightarrow>
                  (s, [LocalStorageGetItem ''userEmail'', CallGetUserByEmail e,
                       CallCreateUser e ''Anonymous User''])
              | Inr created \<Rightarrow>
                  (load_reports env (s\<lparr>user := created\<rparr>),
                   [LocalStorageGetItem ''userEmail'', CallGetUserByEmail e,
                    CallCreateUser e ''Anonymous User'', CallGetRecentReports]))))"

subsection \<open>Vocabulary of the statements\<close>

text \<open>A field of the parsed answer passes the check when reading it yields a truthy value.\<close>

definition field_ok :: "jsvalue \<Rightarrow> string \<Rightarrow> bool" where
  "field_ok v k = (case get_prop v k of Inl e \<Rightarrow> False | Inr x \<Rightarrow> truthy x)"

definition required_fields :: "string list" where
  "required_fields = [''wasteType'', ''quantity'', ''confidence'']"

text \<open>The arguments \<open>handleSubmit\<close> passes to \<open>createReport\<close> for user \<open>u\<close> in state \<open>s\<close>.\<close>

definition createReport_call :: "user \<Rightarrow> page_state \<Rightarrow> event" where
  "createReport_call u s =
     CallCreateReport (user_id u) (location (newReport s)) (type (newReport s))
       (amount (newReport s)) (nonempty (preview s)) (if_truthy (verificationResult s))"

definition createReport_result :: "createReport_fn \<Rightarrow> user \<Rightarrow> page_state \<Rightarrow> error + jsdate report" where
  "createReport_result createReport u s =
     createReport (user_id u) (location (newReport s)) (type (newReport s))
       (amount (newReport s)) (nonempty (preview s)) (if_truthy (verificationResult s))"

subsection \<open>Concrete runs\<close>

definition alice :: user where
  "alice = \<lparr>user_id = 1, email = ''alice@example.org'', name = ''Alice''\<rparr>"

definition photo :: jsfile where
  "photo = \<lparr>file_name = ''bin.jpg'', file_type = ''image/jpeg''\<rparr>"

definition photo_url :: string where
  "photo_url = ''data:image/jpeg;base64,/9j/4AAQ''"

text \<open>A model that answers every request with the given text, and one that cannot be reached.\<close>

definition answering :: "string \<Rightarrow> verify_env" where
  "answering text =
     \<lparr>readFileAsBase64 = (\<lambda>f. Inr photo_url), generateContent = (\<lambda>req. Inr text)\<rparr>"

definition unreachable :: verify_env where
  "unreachable =
     \<lparr>readFileAsBase64 = (\<lambda>f. Inr photo_url), generateContent = (\<lambda>req. Inl Rejected)\<rparr>"

definition plastic_text :: string where
  "plastic_text = ''{\"wasteType\":\"plastic\",\"quantity\":\"2kg\",\"confidence\":0.87}''"

definition plastic_result :: jsvalue where
  "plastic_result =
     Object [(''wasteType'', String ''plastic''), (''quantity'', String ''2kg''),
             (''confidence'', Number (Num (87 / 100)))]"

text \<open>A logged-in user has picked a photo; then the photo has been verified.\<close>

definition picked :: page_state where
  "picked =
     \<lparr>user = Some alice, reports = [],
      newReport = \<lparr>location = ''12 Mill Lane'', type = String '''', amount = String ''''\<rparr>,
      file = Some photo, preview = Some photo_url, verificationStatus = Idle,
      verificationResult = None, isSubmitting = False\<rparr>"

definition verified :: page_state where
  "verified =
     \<lparr>user = Some alice, reports = [],
      newReport = \<lparr>location = ''12 Mill Lane'', type = String ''plastic'',
                   amount = String ''2kg''\<rparr>,
      file = Some photo, preview = Some photo_url, verificationStatus = Success,
      verificationResult = Some plastic_result, isSubmitting = False\<rparr>"

definition stored :: "jsdate report" where
  "stored =
     \<lparr>report_id = 7, report_location = ''12 Mill Lane'', wasteType = ''plastic'',
      report_amount = ''2kg'',
      createdAt = Date \<lparr>year = 2024, month = 5, day = 17, hours = 9, minutes = 30,
                        seconds = 2, milliseconds = 45\<rparr>\<rparr>"

definition store_ok :: createReport_fn where
  "store_ok = (\<lambda>u l t a p v. Inr stored)"

definition store_down :: createReport_fn where
  "store_down = (\<lambda>u l t a p v. Inl Rejected)"

text \<open>A store whose clock is far off: the report it returns is dated in the year -1.\<close>

definition antique :: "jsdate report" where
  "antique =
     \<lparr>report_id = 8, report_location = ''12 Mill Lane'', wasteType = ''plastic'',
      report_amount = ''2kg'',
      createdAt = Date \<lparr>year = - 1, month = 12, day = 31, hours = 23, minutes = 59,
                        seconds = 59, milliseconds = 999\<rparr>\<rparr>"

definition store_antique :: createReport_fn where
  "store_antique = (\<lambda>u l t a p v. Inr antique)"

definition no_session :: bootstrap_env where
  "no_session =
     \<lparr>localStorage_getItem = (\<lambda>k. None), getUserByEmail = (\<lambda>e. Inr None),
      createUser = (\<lambda>e n. Inr (Some \<lparr>user_id = 2, email = e, name = n\<rparr>)),
      getRecentReports = Inr [stored]\<rparr>"

definition new_visitor :: bootstrap_env where
  "new_visitor =
     \<lparr>localStorage_getItem = (\<lambda>k. if k = ''userEmail'' then Some ''bob@example.org'' else None),
      getUserByEmail = (\<lambda>e. Inr None),
      createUser = (\<lambda>e n. Inr (Some \<lparr>user_id = 2, email = e, name = n\<rparr>)),
      getRecentReports = Inr [stored]\<rparr>"

section \<open>Properties\<close>

subsection \<open>Auxiliary facts\<close>

lemma split_on_no_sep:
  "sep \<notin> set a \<Longrightarrow> split_on sep (a @ sep # b) = (a, fst (split_on sep b) # snd (split_on sep b))"
  by (induction a) (auto split: prod.splits)

lemma split_0_prefix: "sep \<notin> set a \<Longrightarrow> split_0 sep (a @ sep # b) = a"
  by (simp add: split_0_def split_on_no_sep)

lemma digit_char_not_T: "digit_char n \<noteq> CHR ''T''"
proof -
  have "n mod 10 < length ''0123456789''" by simp
  then have "''0123456789'' ! (n mod 10) \<in> set ''0123456789''" by (rule nth_mem)
  then show ?thesis unfolding digit_char_def by auto
qed

lemma pad_no_T: "CHR ''T'' \<notin> set (pad w n)"
  by (induction w arbitrary: n) (simp_all add: digit_char_not_T [THEN not_sym])

lemma pad_numeral:
  "pad (numeral k) n = pad (pred_numeral k) (n div 10) @ [digit_char n]"
proof -
  have "numeral k = Suc (pred_numeral k)" by (rule numeral_eq_Suc)
  then show ?thesis by (simp only: pad.simps)
qed

lemma pad_2: "pad 2 n = [digit_char (n div 10), digit_char n]"
  by (simp add: pad_numeral)

lemma pad_4:
  "pad 4 n = [digit_char (n div 1000), digit_char (n div 100), digit_char (n div 10),
              digit_char n]"
  by (simp add: pad_numeral div_mult2_eq [symmetric])

lemma pad_6:
  "pad 6 n = [digit_char (n div 100000), digit_char (n div 10000), digit_char (n div 1000),
              digit_char (n div 100), digit_char (n div 10), digit_char n]"
  by (simp add: pad_numeral div_mult2_eq [symmetric])

lemma iso_date_no_T: "CHR ''T'' \<notin> set (iso_date d)"
  by (simp add: iso_date_def iso_year_def pad_no_T)

lemma formatReport_Date:
  "createdAt r = Date d \<Longrightarrow>
   formatReport r =
     Inr \<lparr>report_id = report_id r, report_location = report_location r,
          wasteType = wasteType r, report_amount = report_amount r, createdAt = iso_date d\<rparr>"
  using split_0_prefix [OF iso_date_no_T, of d "iso_time d"]
  by (simp add: formatReport_def)

lemma check_fields_Some:
  "check_fields v = Inr (Some (w, q)) \<longleftrightarrow>
     get_prop v ''wasteType'' = Inr w \<and> truthy w \<and> get_prop v ''quantity'' = Inr q \<and> truthy q
     \<and> field_ok v ''confidence''"
  by (auto simp: check_fields_def field_ok_def split: sum.splits if_splits)

lemma check_fields_accepts:
  "(\<exists>wq. check_fields v = Inr (Some wq)) \<longleftrightarrow>
     field_ok v ''wasteType'' \<and> field_ok v ''quantity'' \<and> field_ok v ''confidence''"
  by (auto simp: check_fields_def field_ok_def split: sum.splits if_splits)

lemma interpret_text_rejects:
  "\<not> (\<exists>v wq. JSON_parse text = Inr v \<and> check_fields v = Inr (Some wq)) \<Longrightarrow>
   fst (interpret_text text s s1) = s1\<lparr>verificationStatus := Failure\<rparr>"
  by (auto simp: interpret_text_def split: sum.splits option.splits)

lemma interpret_text_accepts:
  "JSON_parse text = Inr v \<Longrightarrow> check_fields v = Inr (Some (w, q)) \<Longrightarrow>
   interpret_text text s s1 =
     (s1\<lparr>verificationResult := Some v, verificationStatus := Success,
         newReport := (newReport s)\<lparr>type := w, amount := q\<rparr>\<rparr>, [])"
  by (simp add: interpret_text_def)

lemma handleVerify_throws:
  "file s = Some f \<Longrightarrow> fst (request_text env f) = Inl e \<Longrightarrow>
   fst (handleVerify env s) = s\<lparr>verificationStatus := Failure\<rparr>"
  by (cases "request_text env f") (simp add: handleVerify_def verify_started_def)

lemma handleVerify_text:
  "file s = Some f \<Longrightarrow> fst (request_text env f) = Inr text \<Longrightarrow>
   fst (handleVerify env s) = fst (interpret_text text s (verify_started s))"
  by (cases "request_text env f") (simp add: handleVerify_def split: prod.splits)

lemma JSON_parse_plastic: "JSON_parse plastic_text = Inr plastic_result"
  by (simp add: plastic_text_def plastic_result_def JSON_parse_def is_space_def is_digit_def
      is_numchar_def number_literal_def parse_frac_exp_def digits_val_def digit_val_def
      decimal_def to_double_def)

lemma request_text_answering: "fst (request_text (answering text) f) = Inr text"
  by (simp add: request_text_def answering_def)

lemma request_text_unreachable: "fst (request_text unreachable f) = Inl Rejected"
  by (simp add: request_text_def unreachable_def)

lemma handleSubmit_returns:
  assumes "verificationStatus s = Success" and "user s = Some u"
    and "createReport_result createReport u s = Inr r" and "createdAt r = Date d"
  shows "fst (handleSubmit createReport s)
           = s\<lparr>reports := \<lparr>report_id = report_id r, report_location = report_location r,
                           wasteType = wasteType r, report_amount = report_amount r,
                           createdAt = iso_date d\<rparr> # reports s,
               newReport := empty_draft, file := None, preview := None,
               verificationStatus := Idle, verificationResult := None,
               isSubmitting := False\<rparr>"
proof -
  from assms(4) have "formatReport r =
      Inr \<lparr>report_id = report_id r, report_location = report_location r,
           wasteType = wasteType r, report_amount = report_amount r, createdAt = iso_date d\<rparr>"
    by (rule formatReport_Date)
  with assms(1-3) show ?thesis
    by (simp add: handleSubmit_def submit_def createReport_result_def Let_def empty_draft_def)
qed

lemma verified_submittable:
  "verificationStatus verified = Success" "user verified = Some alice"
  "createReport_result store_ok alice verified = Inr stored"
  "createdAt stored
     = Date \<lparr>year = 2024, month = 5, day = 17, hours = 9, minutes = 30, seconds = 2,
             milliseconds = 45\<rparr>"
  by (simp_all add: verified_def createReport_result_def store_ok_def stored_def)

subsection \<open>Submission gate\<close>

text \<open>
  C1. \<open>handleSubmit\<close> calls \<open>createReport\<close> if and only if the verification status is
  \<open>success\<close> and a user is resolved. Whenever the status is \<open>idle\<close>, \<open>verifying\<close> or
  \<open>failure\<close>, or no user is resolved, all it does is show the "please verify / log in"
  notice: the state is unchanged and no store is called.
\<close>

theorem handleSubmit_gate:
  "((\<exists>ev \<in> set (snd (handleSubmit createReport s)). is_createReport ev) \<longleftrightarrow>
      verificationStatus s = Success \<and> user s \<noteq> None)
   \<and> (verificationStatus s \<in> {Idle, Verifying, Failure} \<or> user s = None \<longrightarrow>
        handleSubmit createReport s = (s, [PreventDefault, ToastError not_ready])
        \<and> \<not> (\<exists>ev \<in> set (snd (handleSubmit createReport s)). is_store_call ev))"
proof (cases "verificationStatus s = Success \<and> user s \<noteq> None")
  case True
  then obtain u where u: "user s = Some u" by auto
  have "\<exists>ev \<in> set (snd (submit createReport u s)). is_createReport ev"
    by (simp add: submit_def Let_def split: sum.splits)
  with True u show ?thesis by (simp add: handleSubmit_def)
next
  case False
  then have "handleSubmit createReport s = (s, [PreventDefault, ToastError not_ready])"
    by (auto simp: handleSubmit_def split: option.splits)
  with False show ?thesis by (cases "verificationStatus s") auto
qed

theorem handleSubmit_gate_witness:
  "(\<exists>ev \<in> set (snd (handleSubmit store_ok verified)). is_createReport ev)
   \<and> handleSubmit store_ok picked = (picked, [PreventDefault, ToastError not_ready])
   \<and> handleSubmit store_ok (verified\<lparr>user := None\<rparr>)
       = (verified\<lparr>user := None\<rparr>, [PreventDefault, ToastError not_ready])"
  using handleSubmit_gate [of store_ok verified] handleSubmit_gate [of store_ok picked]
    handleSubmit_gate [of store_ok "verified\<lparr>user := None\<rparr>"]
  by (simp add: verified_def picked_def)

subsection \<open>Failed verification\<close>

text \<open>
  C2. When an attempt fails, because the call to the model throws, or the text it returns
  is not JSON, or the parsed JSON lacks a required field (reading it gives no truthy
  value), \<open>handleVerify\<close> sets the status to \<open>failure\<close> and changes nothing else: the draft
  is the one from before the attempt.
\<close>

theorem handleVerify_failure:
  assumes "file s = Some f"
    and "(\<exists>e. fst (request_text env f) = Inl e)
       \<or> (\<exists>text. fst (request_text env f) = Inr text
            \<and> ((\<exists>e. JSON_parse text = Inl e)
               \<or> (\<exists>v k. JSON_parse text = Inr v \<and> k \<in> set required_fields \<and> \<not> field_ok v k)))"
  shows "verificationStatus (fst (handleVerify env s)) = Failure
       \<and> newReport (fst (handleVerify env s)) = newReport s
       \<and> fst (handleVerify env s) = s\<lparr>verificationStatus := Failure\<rparr>"
proof -
  have "fst (handleVerify env s) = s\<lparr>verificationStatus := Failure\<rparr>"
    using assms(2)
  proof (elim disjE exE conjE)
    fix e assume "fst (request_text env f) = Inl e"
    with assms(1) show ?thesis by (rule handleVerify_throws)
  next
    fix reply e
    assume t: "fst (request_text env f) = Inr reply" and "JSON_parse reply = Inl e"
    then have "fst (interpret_text reply s (verify_started s))
        = (verify_started s)\<lparr>verificationStatus := Failure\<rparr>"
      by (intro interpret_text_rejects) simp
    with assms(1) t show ?thesis
      by (simp add: handleVerify_text verify_started_def)
  next
    fix reply v k
    assume t: "fst (request_text env f) = Inr reply" and v: "JSON_parse reply = Inr v"
      and k: "k \<in> set required_fields" and bad: "\<not> field_ok v k"
    from k bad
    have "\<not> (field_ok v ''wasteType'' \<and> field_ok v ''quantity'' \<and> field_ok v ''confidence'')"
      by (auto simp: required_fields_def)
    then have "\<not> (\<exists>wq. check_fields v = Inr (Some wq))"
      unfolding check_fields_accepts .
    with v have "fst (interpret_text reply s (verify_started s))
        = (verify_started s)\<lparr>verificationStatus := Failure\<rparr>"
      by (intro interpret_text_rejects) simp
    with assms(1) t show ?thesis
      by (simp add: handleVerify_text verify_started_def)
  qed
  then show ?thesis by simp
qed

theorem handleVerify_failure_witness:
  "fst (handleVerify unreachable picked) = picked\<lparr>verificationStatus := Failure\<rparr>
   \<and> fst (handleVerify (answering ''I cannot analyze this'') picked)
       = picked\<lparr>verificationStatus := Failure\<rparr>
   \<and> fst (handleVerify (answering ''{\"wasteType\":\"plastic\"}'') picked)
       = picked\<lparr>verificationStatus := Failure\<rparr>"
proof -
  have f: "file picked = Some photo" by (simp add: picked_def)
  have a: "\<exists>e. fst (request_text unreachable photo) = Inl e"
    by (simp add: request_text_unreachable)
  have "JSON_parse ''I cannot analyze this'' = Inl SyntaxError"
    by (simp add: JSON_parse_def is_space_def is_digit_def)
  then have b: "\<exists>text. fst (request_text (answering ''I cannot analyze this'') photo) = Inr text
      \<and> ((\<exists>e. JSON_parse text = Inl e)
         \<or> (\<exists>v k. JSON_parse text = Inr v \<and> k \<in> set required_fields \<and> \<not> field_ok v k))"
    by (simp add: request_text_answering)
  have p: "JSON_parse ''{\"wasteType\":\"plastic\"}'' = Inr (Object [(''wasteType'', String ''plastic'')])"
    by (simp add: JSON_parse_def is_space_def is_digit_def)
  have "\<not> field_ok (Object [(''wasteType'', String ''plastic'')]) ''quantity''"
    by (simp add: field_ok_def)
  with p have c: "\<exists>text. fst (request_text (answering ''{\"wasteType\":\"plastic\"}'') photo) = Inr text
      \<and> ((\<exists>e. JSON_parse text = Inl e)
         \<or> (\<exists>v k. JSON_parse text = Inr v \<and> k \<in> set required_fields \<and> \<not> field_ok v k))"
    unfolding request_text_answering required_fields_def
    by (intro exI [of _ "''{\"wasteType\":\"plastic\"}''"] conjI disjI2
        exI [of _ "Object [(''wasteType'', String ''plastic'')]"] exI [of _ "''quantity''"])
      simp_all
  show ?thesis
    using handleVerify_failure [OF f disjI1, OF a] handleVerify_failure [OF f disjI2, OF b]
      handleVerify_failure [OF f disjI2, OF c]
    by simp
qed

subsection \<open>A new attempt and the stored result\<close>

text \<open>
  C3, as the code has it. With a file selected, a new attempt re-enters \<open>verifying\<close> from
  any status, success and failure included, and ends in \<open>success\<close> or \<open>failure\<close>.
  Starting the attempt does not touch the stored verification result, and a failed
  attempt leaves it as it was: the stored result lives until the next attempt that
  succeeds, which overwrites it with the value parsed from the new answer, or until the
  reset after a successful submission, which clears it.
\<close>

theorem handleVerify_result_lifetime:
  assumes "file s = Some f"
  shows "verificationStatus (verify_started s) = Verifying
       \<and> verificationResult (verify_started s) = verificationResult s
       \<and> verificationStatus (fst (handleVerify env s)) \<in> {Success, Failure}
       \<and> (verificationStatus (fst (handleVerify env s)) = Failure \<longrightarrow>
            verificationResult (fst (handleVerify env s)) = verificationResult s)
       \<and> (verificationStatus (fst (handleVerify env s)) = Success \<longrightarrow>
            (\<exists>reply v. fst (request_text env f) = Inr reply \<and> JSON_parse reply = Inr v
               \<and> verificationResult (fst (handleVerify env s)) = Some v))
       \<and> (\<forall>u r d. verificationStatus s = Success \<and> user s = Some u
              \<and> createReport_result createReport u s = Inr r \<and> createdAt r = Date d \<longrightarrow>
              verificationResult (fst (handleSubmit createReport s)) = None)"
proof -
  have attempt: "verificationStatus (verify_started s) = Verifying
       \<and> verificationResult (verify_started s) = verificationResult s
       \<and> verificationStatus (fst (handleVerify env s)) \<in> {Success, Failure}
       \<and> (verificationStatus (fst (handleVerify env s)) = Failure \<longrightarrow>
            verificationResult (fst (handleVerify env s)) = verificationResult s)
       \<and> (verificationStatus (fst (handleVerify env s)) = Success \<longrightarrow>
            (\<exists>reply v. fst (request_text env f) = Inr reply \<and> JSON_parse reply = Inr v
               \<and> verificationResult (fst (handleVerify env s)) = Some v))"
  proof (cases "fst (request_text env f)")
    case (Inl e)
    with assms have "fst (handleVerify env s) = s\<lparr>verificationStatus := Failure\<rparr>"
      by (rule handleVerify_throws)
    then show ?thesis by (simp add: verify_started_def)
  next
    case (Inr reply)
    with assms
    have run: "fst (handleVerify env s) = fst (interpret_text reply s (verify_started s))"
      by (rule handleVerify_text)
    show ?thesis
    proof (cases "\<exists>v wq. JSON_parse reply = Inr v \<and> check_fields v = Inr (Some wq)")
      case True
      then obtain v w q where "JSON_parse reply = Inr v" "check_fields v = Inr (Some (w, q))"
        by auto
      with run Inr show ?thesis
        by (simp add: interpret_text_accepts verify_started_def)
    next
      case False
      then have "fst (interpret_text reply s (verify_started s))
          = (verify_started s)\<lparr>verificationStatus := Failure\<rparr>"
        by (rule interpret_text_rejects)
      with run show ?thesis by (simp add: verify_started_def)
    qed
  qed
  have reset: "verificationResult (fst (handleSubmit createReport s)) = None"
    if "verificationStatus s = Success" "user s = Some u"
      "createReport_result createReport u s = Inr r" "createdAt r = Date d" for u r d
    using handleSubmit_returns [OF that] by simp
  from attempt reset show ?thesis by blast
qed

theorem handleVerify_result_lifetime_witness:
  "verificationStatus (verify_started verified) = Verifying
   \<and> verificationResult (verify_started verified) = Some plastic_result
   \<and> verificationStatus (fst (handleVerify unreachable verified)) = Failure
   \<and> verificationResult (fst (handleVerify unreachable verified)) = Some plastic_result
   \<and> verificationResult (fst (handleSubmit store_ok verified)) = None"
proof -
  have f: "file verified = Some photo" by (simp add: verified_def)
  have "fst (handleVerify unreachable verified) = verified\<lparr>verificationStatus := Failure\<rparr>"
    using f request_text_unreachable by (rule handleVerify_throws)
  then have "verificationStatus (fst (handleVerify unreachable verified)) = Failure"
    by simp
  moreover have "verificationResult verified = Some plastic_result"
    by (simp add: verified_def)
  ultimately show ?thesis
    using handleVerify_result_lifetime [OF f, of unreachable store_ok] verified_submittable
    by auto
qed

text \<open>
  C3 as stated fails: in the verified state, an attempt that cannot reach the model ends in
  \<open>failure\<close> with the previous attempt's result still stored, and so does the state right
  after the attempt has begun.
\<close>

theorem stale_result_counterexample:
  "verificationStatus verified = Success
   \<and> verificationStatus (verify_started verified) = Verifying
   \<and> verificationResult (verify_started verified) = Some plastic_result
   \<and> verificationStatus (fst (handleVerify unreachable verified)) = Failure
   \<and> verificationResult (fst (handleVerify unreachable verified)) = Some plastic_result"
proof -
  have f: "file verified = Some photo" by (simp add: verified_def)
  have "fst (handleVerify unreachable verified) = verified\<lparr>verificationStatus := Failure\<rparr>"
    using f request_text_unreachable by (rule handleVerify_throws)
  then show ?thesis by (simp add: verified_def verify_started_def)
qed

subsection \<open>What an accepted answer is\<close>

text \<open>
  C4. An answer is accepted (the attempt ends in \<open>success\<close>) only if it parses and all
  three of \<open>wasteType\<close>, \<open>quantity\<close> and \<open>confidence\<close> are present and truthy; in particular
  an answer whose \<open>confidence\<close> is the number 0 ends in \<open>failure\<close>.
\<close>

theorem handleVerify_accepts_iff:
  assumes "file s = Some f" and "fst (request_text env f) = Inr reply"
  shows "(verificationStatus (fst (handleVerify env s)) = Success \<longleftrightarrow>
           (\<exists>v. JSON_parse reply = Inr v \<and> field_ok v ''wasteType'' \<and> field_ok v ''quantity''
                \<and> field_ok v ''confidence''))
       \<and> (\<forall>v. JSON_parse reply = Inr v \<and> get_prop v ''confidence'' = Inr (Number (Num 0)) \<longrightarrow>
              verificationStatus (fst (handleVerify env s)) = Failure)"
proof -
  from assms have run: "fst (handleVerify env s) = fst (interpret_text reply s (verify_started s))"
    by (rule handleVerify_text)
  have iff: "verificationStatus (fst (handleVerify env s)) = Success \<longleftrightarrow>
      (\<exists>v. JSON_parse reply = Inr v \<and> (\<exists>wq. check_fields v = Inr (Some wq)))"
  proof (cases "\<exists>v wq. JSON_parse reply = Inr v \<and> check_fields v = Inr (Some wq)")
    case True
    then obtain v w q where "JSON_parse reply = Inr v" "check_fields v = Inr (Some (w, q))"
      by auto
    with run show ?thesis by (simp add: interpret_text_accepts)
  next
    case False
    then have "fst (interpret_text reply s (verify_started s))
        = (verify_started s)\<lparr>verificationStatus := Failure\<rparr>"
      by (rule interpret_text_rejects)
    with run False show ?thesis by auto
  qed
  have fail: "verificationStatus (fst (handleVerify env s)) = Failure"
    if "JSON_parse reply = Inr v" "get_prop v ''confidence'' = Inr (Number (Num 0))" for v
  proof -
    from that(2) have "\<not> field_ok v ''confidence''" by (simp add: field_ok_def)
    then have "\<not> (\<exists>wq. check_fields v = Inr (Some wq))"
      unfolding check_fields_accepts by simp
    with that(1) have "fst (interpret_text reply s (verify_started s))
        = (verify_started s)\<lparr>verificationStatus := Failure\<rparr>"
      by (intro interpret_text_rejects) simp
    with run show ?thesis by simp
  qed
  from iff fail show ?thesis unfolding check_fields_accepts by blast
qed

theorem handleVerify_accepts_iff_witness:
  "verificationStatus
     (fst (handleVerify
             (answering ''{\"wasteType\":\"plastic\",\"quantity\":\"2kg\",\"confidence\":0}'')
             picked)) = Failure"
proof -
  have f: "file picked = Some photo" by (simp add: picked_def)
  have p: "JSON_parse ''{\"wasteType\":\"plastic\",\"quantity\":\"2kg\",\"confidence\":0}''
      = Inr (Object [(''wasteType'', String ''plastic''), (''quantity'', String ''2kg''),
                     (''confidence'', Number (Num 0))])"
    by (simp add: JSON_parse_def is_space_def is_digit_def is_numchar_def number_literal_def
        parse_frac_exp_def digits_val_def digit_val_def decimal_def to_double_def)
  have c: "get_prop (Object [(''wasteType'', String ''plastic''), (''quantity'', String ''2kg''),
                     (''confidence'', Number (Num 0))]) ''confidence'' = Inr (Number (Num 0))"
    by simp
  from handleVerify_accepts_iff [OF f request_text_answering] p c show ?thesis
    by blast
qed

subsection \<open>Submission\<close>

text \<open>
  C5. After a successful submission (the guard passes, the store returns a report, and its
  creation date is a valid date), the new report is at index 0 of the recent reports, in
  front of the previous ones, with \<open>createdAt\<close> formatted to the calendar day of the
  creation date: the decimal digits of its UTC year (four digits, or a sign and six digits
  for a year outside 0..9999), a hyphen, the two digits of its month, a hyphen, and the
  two digits of its day. The draft, the file, the preview, the verification status and
  the verification result have their initial values.
\<close>

theorem handleSubmit_success:
  assumes "verificationStatus s = Success" and "user s = Some u"
    and "createReport_result createReport u s = Inr r" and "createdAt r = Date d"
  shows "reports (fst (handleSubmit createReport s)) ! 0
           = \<lparr>report_id = report_id r, report_location = report_location r,
              wasteType = wasteType r, report_amount = report_amount r,
              createdAt =
                (let D = (\<lambda>n. ''0123456789'' ! (n mod 10)); y = nat \<bar>year d\<bar>
                 in (if 0 \<le> year d \<and> year d \<le> 9999
                     then [D (y div 1000), D (y div 100), D (y div 10), D y]
                     else (if year d < 0 then CHR ''-'' else CHR ''+'')
                          # [D (y div 100000), D (y div 10000), D (y div 1000),
                             D (y div 100), D (y div 10), D y])
                    @ [CHR ''-'', D (month d div 10), D (month d),
                       CHR ''-'', D (day d div 10), D (day d)])\<rparr>
       \<and> tl (reports (fst (handleSubmit createReport s))) = reports s
       \<and> newReport (fst (handleSubmit createReport s)) = newReport initial_state
       \<and> file (fst (handleSubmit createReport s)) = file initial_state
       \<and> preview (fst (handleSubmit createReport s)) = preview initial_state
       \<and> verificationStatus (fst (handleSubmit createReport s)) = verificationStatus initial_state
       \<and> verificationResult (fst (handleSubmit createReport s)) = verificationResult initial_state"
proof -
  have day: "iso_date d =
      (let D = (\<lambda>n. ''0123456789'' ! (n mod 10)); y = nat \<bar>year d\<bar>
       in (if 0 \<le> year d \<and> year d \<le> 9999
           then [D (y div 1000), D (y div 100), D (y div 10), D y]
           else (if year d < 0 then CHR ''-'' else CHR ''+'')
                # [D (y div 100000), D (y div 10000), D (y div 1000),
                   D (y div 100), D (y div 10), D y])
          @ [CHR ''-'', D (month d div 10), D (month d),
             CHR ''-'', D (day d div 10), D (day d)])"
    by (simp add: iso_date_def iso_year_def pad_2 pad_4 pad_6 digit_char_def Let_def)
  from assms have "fst (handleSubmit createReport s)
      = s\<lparr>reports := \<lparr>report_id = report_id r, report_location = report_location r,
                      wasteType = wasteType r, report_amount = report_amount r,
                      createdAt = iso_date d\<rparr> # reports s,
          newReport := empty_draft, file := None, preview := None,
          verificationStatus := Idle, verificationResult := None, isSubmitting := False\<rparr>"
    by (rule handleSubmit_returns)
  then show ?thesis unfolding day by (simp add: initial_state_def)
qed

theorem handleSubmit_success_witness:
  "reports (fst (handleSubmit store_ok verified)) ! 0
     = \<lparr>report_id = 7, report_location = ''12 Mill Lane'', wasteType = ''plastic'',
        report_amount = ''2kg'', createdAt = ''2024-05-17''\<rparr>
   \<and> reports (fst (handleSubmit store_antique verified)) ! 0
     = \<lparr>report_id = 8, report_location = ''12 Mill Lane'', wasteType = ''plastic'',
        report_amount = ''2kg'', createdAt = ''-000001-12-31''\<rparr>
   \<and> tl (reports (fst (handleSubmit store_ok verified))) = []
   \<and> newReport (fst (handleSubmit store_ok verified))
       = \<lparr>location = '''', type = String '''', amount = String ''''\<rparr>
   \<and> file (fst (handleSubmit store_ok verified)) = None
   \<and> preview (fst (handleSubmit store_ok verified)) = None
   \<and> verificationStatus (fst (handleSubmit store_ok verified)) = Idle
   \<and> verificationResult (fst (handleSubmit store_ok verified)) = None"
proof -
  have a: "verificationStatus verified = Success" "user verified = Some alice"
    "createReport_result store_antique alice verified = Inr antique"
    "createdAt antique
       = Date \<lparr>year = - 1, month = 12, day = 31, hours = 23, minutes = 59, seconds = 59,
               milliseconds = 999\<rparr>"
    by (simp_all add: verified_def createReport_result_def store_antique_def antique_def)
  from handleSubmit_success [OF verified_submittable] handleSubmit_success [OF a]
  show ?thesis
    by (simp add: stored_def antique_def initial_state_def empty_draft_def verified_def)
qed

text \<open>
  C6. If the call to \<open>createReport\<close> throws, \<open>handleSubmit\<close> leaves the draft, the file, the
  preview, the verification status, the verification result and the recent reports
  untouched, shows the generic error notice, and has called the store exactly once (no
  retry). A submission triggered again from the resulting state calls \<open>createReport\<close> with
  the same arguments.
\<close>

theorem handleSubmit_store_throws:
  assumes "verificationStatus s = Success" and "user s = Some u"
    and "createReport_result createReport u s = Inl e"
  shows "fst (handleSubmit createReport s) = s\<lparr>isSubmitting := False\<rparr>
       \<and> newReport (fst (handleSubmit createReport s)) = newReport s
       \<and> file (fst (handleSubmit createReport s)) = file s
       \<and> preview (fst (handleSubmit createReport s)) = preview s
       \<and> verificationStatus (fst (handleSubmit createReport s)) = verificationStatus s
       \<and> verificationResult (fst (handleSubmit createReport s)) = verificationResult s
       \<and> reports (fst (handleSubmit createReport s)) = reports s
       \<and> snd (handleSubmit createReport s)
           = [PreventDefault, createReport_call u s, ConsoleError ''Error submitting report:'',
              ToastError submit_failed]
       \<and> length (filter is_store_call (snd (handleSubmit createReport s))) = 1
       \<and> createReport_call u s \<in> set (snd (handleSubmit again (fst (handleSubmit createReport s))))"
proof -
  from assms have run: "handleSubmit createReport s =
      (s\<lparr>isSubmitting := False\<rparr>,
       [PreventDefault, createReport_call u s, ConsoleError ''Error submitting report:'',
        ToastError submit_failed])"
    by (simp add: handleSubmit_def submit_def createReport_result_def createReport_call_def
        Let_def)
  have "createReport_call u s \<in> set (snd (handleSubmit again (s\<lparr>isSubmitting := False\<rparr>)))"
    using assms(1,2)
    by (simp add: handleSubmit_def submit_def createReport_call_def Let_def split: sum.splits)
  with run show ?thesis by (simp add: createReport_call_def)
qed

theorem handleSubmit_store_throws_witness:
  "fst (handleSubmit store_down verified) = verified\<lparr>isSubmitting := False\<rparr>
   \<and> snd (handleSubmit store_down verified)
       = [PreventDefault,
          CallCreateReport 1 ''12 Mill Lane'' (String ''plastic'') (String ''2kg'')
            (Some photo_url) (Some plastic_result),
          ConsoleError ''Error submitting report:'', ToastError submit_failed]"
proof -
  have a: "verificationStatus verified = Success" "user verified = Some alice"
    by (simp_all add: verified_def)
  have b: "createReport_result store_down alice verified = Inl Rejected"
    by (simp add: createReport_result_def store_down_def)
  have c: "createReport_call alice verified
      = CallCreateReport 1 ''12 Mill Lane'' (String ''plastic'') (String ''2kg'')
          (Some photo_url) (Some plastic_result)"
    by (simp add: createReport_call_def verified_def alice_def nonempty_def if_truthy_def
        photo_url_def plastic_result_def)
  from handleSubmit_store_throws [OF a b] show ?thesis by (simp add: c)
qed

subsection \<open>Accepted answers\<close>

text \<open>
  C7. When the model answers with exactly the text
  \<open>{"wasteType":"plastic","quantity":"2kg","confidence":0.87}\<close>, \<open>handleVerify\<close> parses
  it, stores the parsed object as the verification result, sets the status to \<open>success\<close>,
  and sets \<open>type\<close> of the draft to "plastic" and \<open>amount\<close> to "2kg".
\<close>

theorem handleVerify_plastic:
  assumes "file s = Some f" and "fst (request_text env f) = Inr plastic_text"
  shows "JSON_parse plastic_text = Inr plastic_result
       \<and> verificationResult (fst (handleVerify env s)) = Some plastic_result
       \<and> verificationStatus (fst (handleVerify env s)) = Success
       \<and> type (newReport (fst (handleVerify env s))) = String ''plastic''
       \<and> amount (newReport (fst (handleVerify env s))) = String ''2kg''
       \<and> fst (handleVerify env s)
           = s\<lparr>verificationResult := Some plastic_result, verificationStatus := Success,
               newReport := (newReport s)\<lparr>type := String ''plastic'', amount := String ''2kg''\<rparr>\<rparr>"
proof -
  have "check_fields plastic_result = Inr (Some (String ''plastic'', String ''2kg''))"
    by (simp add: check_fields_def plastic_result_def)
  with JSON_parse_plastic
  have "interpret_text plastic_text s (verify_started s) =
      ((verify_started s)\<lparr>verificationResult := Some plastic_result,
          verificationStatus := Success,
          newReport := (newReport s)\<lparr>type := String ''plastic'', amount := String ''2kg''\<rparr>\<rparr>, [])"
    by (rule interpret_text_accepts)
  moreover from assms
  have "fst (handleVerify env s) = fst (interpret_text plastic_text s (verify_started s))"
    by (rule handleVerify_text)
  ultimately show ?thesis
    by (simp add: JSON_parse_plastic verify_started_def)
qed

theorem handleVerify_plastic_witness:
  "fst (handleVerify
          (answering ''{\"wasteType\":\"plastic\",\"quantity\":\"2kg\",\"confidence\":0.87}'')
          picked)
     = \<lparr>user = Some alice, reports = [],
        newReport = \<lparr>location = ''12 Mill Lane'', type = String ''plastic'',
                     amount = String ''2kg''\<rparr>,
        file = Some photo, preview = Some photo_url, verificationStatus = Success,
        verificationResult =
          Some (Object [(''wasteType'', String ''plastic''), (''quantity'', String ''2kg''),
                        (''confidence'', Number (Num (87 / 100)))]),
        isSubmitting = False\<rparr>"
proof -
  have f: "file picked = Some photo" by (simp add: picked_def)
  have t: "fst (request_text (answering plastic_text) photo) = Inr plastic_text"
    by (rule request_text_answering)
  from handleVerify_plastic [OF f t] show ?thesis
    by (simp add: plastic_text_def plastic_result_def picked_def)
qed

text \<open>
  C9. The check is truthiness only. Whenever the answer parses and its \<open>wasteType\<close>,
  \<open>quantity\<close> and \<open>confidence\<close> are truthy, whatever their types and ranges,
  \<open>handleVerify\<close> ends in \<open>success\<close>, stores the parsed value and copies \<open>wasteType\<close> and
  \<open>quantity\<close> into the draft; \<open>confidence\<close> need not be a number, let alone one in [0,1].
\<close>

theorem handleVerify_truthy_only:
  assumes "file s = Some f" and "fst (request_text env f) = Inr reply"
    and "JSON_parse reply = Inr v"
    and "get_prop v ''wasteType'' = Inr w" and "truthy w"
    and "get_prop v ''quantity'' = Inr q" and "truthy q"
    and "get_prop v ''confidence'' = Inr c" and "truthy c"
  shows "fst (handleVerify env s)
           = s\<lparr>verificationResult := Some v, verificationStatus := Success,
               newReport := (newReport s)\<lparr>type := w, amount := q\<rparr>\<rparr>"
proof -
  from assms(8,9) have "field_ok v ''confidence''" by (simp add: field_ok_def)
  with assms(4-7) have "check_fields v = Inr (Some (w, q))"
    by (simp add: check_fields_Some)
  with assms(3)
  have "interpret_text reply s (verify_started s) =
      ((verify_started s)\<lparr>verificationResult := Some v, verificationStatus := Success,
          newReport := (newReport s)\<lparr>type := w, amount := q\<rparr>\<rparr>, [])"
    by (rule interpret_text_accepts)
  moreover from assms(1,2)
  have "fst (handleVerify env s) = fst (interpret_text reply s (verify_started s))"
    by (rule handleVerify_text)
  ultimately show ?thesis by (simp add: verify_started_def)
qed

theorem handleVerify_truthy_only_witness:
  "fst (handleVerify (answering ''{\"wasteType\":7,\"quantity\":[],\"confidence\":-5}'') picked)
     = picked\<lparr>verificationResult :=
                 Some (Object [(''wasteType'', Number (Num 7)), (''quantity'', Array []),
                               (''confidence'', Number (Num (- 5)))]),
               verificationStatus := Success,
               newReport := (newReport picked)\<lparr>type := Number (Num 7), amount := Array []\<rparr>\<rparr>
   \<and> fst (handleVerify
            (answering ''{\"wasteType\":\"glass\",\"quantity\":\"3 l\",\"confidence\":\"high\"}'')
            picked)
     = picked\<lparr>verificationResult :=
                 Some (Object [(''wasteType'', String ''glass''), (''quantity'', String ''3 l''),
                               (''confidence'', String ''high'')]),
               verificationStatus := Success,
               newReport := (newReport picked)\<lparr>type := String ''glass'',
                                                  amount := String ''3 l''\<rparr>\<rparr>"
proof -
  have f: "file picked = Some photo" by (simp add: picked_def)
  have p1: "JSON_parse ''{\"wasteType\":7,\"quantity\":[],\"confidence\":-5}''
      = Inr (Object [(''wasteType'', Number (Num 7)), (''quantity'', Array []),
                     (''confidence'', Number (Num (- 5)))])"
    by (simp add: JSON_parse_def is_space_def is_digit_def is_numchar_def number_literal_def
        parse_frac_exp_def digits_val_def digit_val_def decimal_def to_double_def)
  have p2: "JSON_parse ''{\"wasteType\":\"glass\",\"quantity\":\"3 l\",\"confidence\":\"high\"}''
      = Inr (Object [(''wasteType'', String ''glass''), (''quantity'', String ''3 l''),
                     (''confidence'', String ''high'')])"
    by (simp add: JSON_parse_def is_space_def is_digit_def)
  show ?thesis
    using handleVerify_truthy_only [OF f request_text_answering p1,
        of "Number (Num 7)" "Array []" "Number (Num (- 5))"]
      handleVerify_truthy_only [OF f request_text_answering p2,
        of "String ''glass''" "String ''3 l''" "String ''high''"]
    by simp
qed

subsection \<open>Session bootstrap\<close>

text \<open>
  C8. On mount, if local storage holds no cached email (no entry, or an empty one),
  \<open>checkUser\<close> redirects to \<open>/login\<close> and calls none of \<open>getUserByEmail\<close>, \<open>createUser\<close> and
  \<open>getRecentReports\<close>. If an email is cached and the user store has no user for it, a
  user is created for that email with the placeholder name "Anonymous User".
\<close>

theorem checkUser_bootstrap:
  "(localStorage_getItem env ''userEmail'' = None \<or> localStorage_getItem env ''userEmail'' = Some [] \<longrightarrow>
      checkUser env s = (s, [LocalStorageGetItem ''userEmail'', RouterPush ''/login''])
      \<and> \<not> (\<exists>ev \<in> set (snd (checkUser env s)). is_store_call ev))
   \<and> (\<forall>e. localStorage_getItem env ''userEmail'' = Some e \<and> e \<noteq> [] \<and> getUserByEmail env e = Inr None \<longrightarrow>
        CallCreateUser e ''Anonymous User'' \<in> set (snd (checkUser env s))
        \<and> RouterPush ''/login'' \<notin> set (snd (checkUser env s))
        \<and> (\<forall>created. createUser env e ''Anonymous User'' = Inr created \<longrightarrow>
              user (fst (checkUser env s)) = created))"
proof (intro conjI impI allI)
  assume "localStorage_getItem env ''userEmail'' = None
      \<or> localStorage_getItem env ''userEmail'' = Some []"
  then have "nonempty (localStorage_getItem env ''userEmail'') = None"
    by (auto simp: nonempty_def)
  then show "checkUser env s = (s, [LocalStorageGetItem ''userEmail'', RouterPush ''/login''])"
    by (simp add: checkUser_def)
  then show "\<not> (\<exists>ev \<in> set (snd (checkUser env s)). is_store_call ev)"
    by simp
next
  fix e
  assume a: "localStorage_getItem env ''userEmail'' = Some e \<and> e \<noteq> []
      \<and> getUserByEmail env e = Inr None"
  then have n: "nonempty (localStorage_getItem env ''userEmail'') = Some e"
    by (simp add: nonempty_def)
  with a show "CallCreateUser e ''Anonymous User'' \<in> set (snd (checkUser env s))"
    by (simp add: checkUser_def split: sum.splits)
  from a n show "RouterPush ''/login'' \<notin> set (snd (checkUser env s))"
    by (simp add: checkUser_def split: sum.splits)
  fix created
  assume "createUser env e ''Anonymous User'' = Inr created"
  with a n show "user (fst (checkUser env s)) = created"
    by (simp add: checkUser_def load_reports_def split: sum.splits)
qed

theorem checkUser_bootstrap_witness:
  "checkUser no_session initial_state
     = (initial_state, [LocalStorageGetItem ''userEmail'', RouterPush ''/login''])
   \<and> CallCreateUser ''bob@example.org'' ''Anonymous User''
       \<in> set (snd (checkUser new_visitor initial_state))
   \<and> user (fst (checkUser new_visitor initial_state))
       = Some \<lparr>user_id = 2, email = ''bob@example.org'', name = ''Anonymous User''\<rparr>"
proof -
  have a: "localStorage_getItem no_session ''userEmail'' = None"
    by (simp add: no_session_def)
  have b: "localStorage_getItem new_visitor ''userEmail'' = Some ''bob@example.org''
      \<and> ''bob@example.org'' \<noteq> [] \<and> getUserByEmail new_visitor ''bob@example.org'' = Inr None"
    by (simp add: new_visitor_def)
  have c: "createUser new_visitor ''bob@example.org'' ''Anonymous User''
      = Inr (Some \<lparr>user_id = 2, email = ''bob@example.org'', name = ''Anonymous User''\<rparr>)"
    by (simp add: new_visitor_def)
  from checkUser_bootstrap [of no_session initial_state] a
  have 1: "checkUser no_session initial_state
      = (initial_state, [LocalStorageGetItem ''userEmail'', RouterPush ''/login''])"
    by blast
  from checkUser_bootstrap [of new_visitor initial_state] b c
  have 2: "CallCreateUser ''bob@example.org'' ''Anonymous User''
        \<in> set (snd (checkUser new_visitor initial_state))
      \<and> user (fst (checkUser new_visitor initial_state))
        = Some \<lparr>user_id = 2, email = ''bob@example.org'', name = ''Anonymous User''\<rparr>"
    by blast
  from 1 2 show ?thesis by simp
qed

subsection \<open>File selection\<close>

text \<open>
  C10. A change event of the file input whose file list is empty (or absent) is a no-op
  of \<open>handleFileChange\<close>: the selected file, the preview and the rest of the state stay as
  they are, and no file is read.
\<close>

theorem handleFileChange_empty:
  "handleFileChange (Some []) s = (s, []) \<and> handleFileChange None s = (s, [])"
  by (simp add: handleFileChange_def)

end
